theory Spec2Isabelle
  imports Complex_Main
begin

section \<open>Condition trees (src/src/conditions.py)\<close>

subsection \<open>FilterCondition\<close>

text \<open>
  The dataclass \<open>FilterCondition\<close>: every field is \<open>Optional\<close> and defaults to
  \<open>None\<close>.  A resolution entry is the list \<open>[width, height]\<close> as the configuration
  gives it.
\<close>

record filter_condition =
  is_favorite :: "bool option"
  asset_types :: "string list option"
  camera_make :: "string option"
  camera_model :: "string option"
  person_ids :: "string list option"
  include_tags :: "string list option"
  exclude_tags :: "string list option"
  resolution :: "int list list option"

definition FilterCondition :: filter_condition where
  "FilterCondition =
     \<lparr>is_favorite = None, asset_types = None, camera_make = None, camera_model = None,
      person_ids = None, include_tags = None, exclude_tags = None, resolution = None\<rparr>"

definition has_filters :: "filter_condition \<Rightarrow> bool" where
  "has_filters c \<longleftrightarrow>
     is_favorite c \<noteq> None \<or> asset_types c \<noteq> None \<or> camera_make c \<noteq> None \<or>
     camera_model c \<noteq> None \<or> person_ids c \<noteq> None \<or> include_tags c \<noteq> None \<or>
     exclude_tags c \<noteq> None \<or> resolution c \<noteq> None"

text \<open>Python truthiness of an optional string or list: \<open>None\<close> and the empty value are false.\<close>

fun truthy :: "'a list option \<Rightarrow> bool" where
  "truthy None = False"
| "truthy (Some xs) = (xs \<noteq> [])"

subsection \<open>ConditionNode\<close>

text \<open>
  \<open>ConditionNode\<close> carries a \<open>node_type\<close>, a list of children and an optional condition.
  Its constructor rejects a LEAF without a condition, \<open>from_config\<close> gives children only to
  AND/OR nodes and a condition only to LEAF nodes, and neither \<open>evaluate\<close> nor
  \<open>_combine_and_leaves\<close> reads the children of a LEAF or the condition of a connective.
  The node is therefore the tagged union below.  The constructor also rejects an AND/OR
  without children (\<open>mk_node\<close> further down); \<open>optimize\<close> and \<open>evaluate\<close> handle a
  connective without children all the same, and so does the model.
\<close>

datatype condition_node =
    LEAF filter_condition
  | AND "condition_node list"
  | OR "condition_node list"

fun is_leaf :: "condition_node \<Rightarrow> bool" where
  "is_leaf (LEAF c) = True"
| "is_leaf (AND cs) = False"
| "is_leaf (OR cs) = False"

fun is_and :: "condition_node \<Rightarrow> bool" where
  "is_and (AND cs) = True"
| "is_and (LEAF c) = False"
| "is_and (OR cs) = False"

fun is_or :: "condition_node \<Rightarrow> bool" where
  "is_or (OR cs) = True"
| "is_or (LEAF c) = False"
| "is_or (AND cs) = False"

fun leaf_conditions :: "condition_node list \<Rightarrow> filter_condition list" where
  "leaf_conditions [] = []"
| "leaf_conditions (LEAF c # ns) = c # leaf_conditions ns"
| "leaf_conditions (n # ns) = leaf_conditions ns"

subsection \<open>The optimizer\<close>

text \<open>
  \<open>list(set(a) & set(b))\<close>: the elements common to both lists, without duplicates.
  Python enumerates the resulting set in hash order; the model keeps the order of the first
  operand.  The source tests the result for emptiness and hands it to the search.
\<close>

definition intersect_types :: "string list \<Rightarrow> string list \<Rightarrow> string list" where
  "intersect_types a b = filter (\<lambda>x. x \<in> set b) (remdups a)"

text \<open>
  The body of the \<open>for child in self.children\<close> loop of \<open>_combine_and_leaves\<close>, one
  function per field.  Each returns \<open>Inl r\<close> when the source executes \<open>return r\<close>
  (\<open>None\<close>: cannot combine; a node: the combined result) and \<open>Inr comb\<close> with the updated
  \<open>combined_condition\<close> otherwise.
\<close>

definition merge_favorite ::
  "filter_condition \<Rightarrow> filter_condition \<Rightarrow> condition_node option + filter_condition" where
  "merge_favorite comb cond =
     (if is_favorite cond \<noteq> None then
        (if is_favorite comb \<noteq> None then Inl None
         else Inr (comb\<lparr>is_favorite := is_favorite cond\<rparr>))
      else Inr comb)"

definition merge_asset_types ::
  "filter_condition \<Rightarrow> filter_condition \<Rightarrow> condition_node option + filter_condition" where
  "merge_asset_types comb cond =
     (case asset_types cond of
        None \<Rightarrow> Inr comb
      | Some ts \<Rightarrow>
          (case asset_types comb of
             None \<Rightarrow> Inr (comb\<lparr>asset_types := Some ts\<rparr>)
           | Some cts \<Rightarrow>
               (if intersect_types cts ts = [] then Inl (Some (LEAF FilterCondition))
                else Inr (comb\<lparr>asset_types := Some (intersect_types cts ts)\<rparr>))))"

definition merge_camera_make ::
  "filter_condition \<Rightarrow> filter_condition \<Rightarrow> condition_node option + filter_condition" where
  "merge_camera_make comb cond =
     (if truthy (camera_make cond) then
        (if truthy (camera_make comb) \<and> camera_make comb \<noteq> camera_make cond then Inl None
         else Inr (comb\<lparr>camera_make := camera_make cond\<rparr>))
      else Inr comb)"

definition merge_camera_model ::
  "filter_condition \<Rightarrow> filter_condition \<Rightarrow> condition_node option + filter_condition" where
  "merge_camera_model comb cond =
     (if truthy (camera_model cond) then
        (if truthy (camera_model comb) \<and> camera_model comb \<noteq> camera_model cond then Inl None
         else Inr (comb\<lparr>camera_model := camera_model cond\<rparr>))
      else Inr comb)"

definition merge_person_ids ::
  "filter_condition \<Rightarrow> filter_condition \<Rightarrow> condition_node option + filter_condition" where
  "merge_person_ids comb cond =
     (if truthy (person_ids cond) then
        (if person_ids comb \<noteq> None then Inl None
         else Inr (comb\<lparr>person_ids := person_ids cond\<rparr>))
      else Inr comb)"

definition merge_child ::
  "filter_condition \<Rightarrow> filter_condition \<Rightarrow> condition_node option + filter_condition" where
  "merge_child comb cond =
     (case merge_favorite comb cond of Inl r \<Rightarrow> Inl r | Inr c1 \<Rightarrow>
       (case merge_asset_types c1 cond of Inl r \<Rightarrow> Inl r | Inr c2 \<Rightarrow>
         (case merge_camera_make c2 cond of Inl r \<Rightarrow> Inl r | Inr c3 \<Rightarrow>
           (case merge_camera_model c3 cond of Inl r \<Rightarrow> Inl r | Inr c4 \<Rightarrow>
              merge_person_ids c4 cond))))"

fun combine_loop :: "filter_condition \<Rightarrow> filter_condition list \<Rightarrow> condition_node option" where
  "combine_loop comb [] = Some (LEAF comb)"
| "combine_loop comb (cond # rest) =
     (case merge_child comb cond of
        Inl r \<Rightarrow> r
      | Inr comb' \<Rightarrow> combine_loop comb' rest)"

text \<open>
  \<open>_combine_and_leaves\<close>, on the children of the AND node: \<open>None\<close> unless every child is
  a LEAF, then the loop started from a fresh \<open>FilterCondition()\<close>.
\<close>

definition combine_and_leaves :: "condition_node list \<Rightarrow> condition_node option" where
  "combine_and_leaves children =
     (if \<not> list_all is_leaf children then None
      else combine_loop FilterCondition (leaf_conditions children))"

text \<open>Optimization 1: a child of the node's own type is replaced by its children.\<close>

fun flatten_and :: "condition_node list \<Rightarrow> condition_node list" where
  "flatten_and [] = []"
| "flatten_and (AND gs # cs) = gs @ flatten_and cs"
| "flatten_and (c # cs) = c # flatten_and cs"

fun flatten_or :: "condition_node list \<Rightarrow> condition_node list" where
  "flatten_or [] = []"
| "flatten_or (OR gs # cs) = gs @ flatten_or cs"
| "flatten_or (c # cs) = c # flatten_or cs"

text \<open>Optimization 3, for a node of connective \<open>mk\<close> whose children are \<open>cs\<close>.\<close>

fun simplify :: "(condition_node list \<Rightarrow> condition_node) \<Rightarrow> condition_node list \<Rightarrow> condition_node" where
  "simplify mk [] = LEAF FilterCondition"
| "simplify mk [c] = c"
| "simplify mk cs = mk cs"

fun optimize :: "condition_node \<Rightarrow> condition_node" where
  "optimize (LEAF c) = LEAF c"
| "optimize (AND cs) =
     (let children = flatten_and (map optimize cs)
      in case combine_and_leaves children of
           Some combined \<Rightarrow> combined
         | None \<Rightarrow> simplify AND children)"
| "optimize (OR cs) = simplify OR (flatten_or (map optimize cs))"

subsection \<open>The client: search oracle and metadata fetch\<close>

text \<open>
  \<open>evaluate\<close> receives the client as an argument and uses two of its methods.  Both are
  remote calls and may raise; an exception is the \<open>Inl\<close> branch.  The keyword arguments
  of \<open>search_assets\<close> are the dictionary \<open>search_params\<close>.  Of the exceptions,
  \<open>ValueError\<close> carries the message the source gives it, \<open>RemoteError\<close> is whatever the
  client raises, and \<open>IllTyped\<close> is not an exception of the source: it marks a
  configuration value that is outside the declared type of the \<open>FilterCondition\<close> field
  it would be stored in (the source stores it unchecked), which the model does not
  follow further.
\<close>

datatype error =
    ValueError string
  | AttributeError
  | ParserError
  | RemoteError string
  | IllTyped string

datatype param = PBool bool | PStr string | PList "string list"

type_synonym search_params = "string \<rightharpoonup> param"

text \<open>
  The asset dictionary returned by \<open>get_asset_metadata\<close>, restricted to the keys the
  source reads; \<open>asset_key\<close> is the key \<open>id\<close>, which every asset of the API carries.
  \<open>asset.get('exifInfo', {})\<close> distinguishes a missing key (the default \<open>{}\<close>) from a
  key holding null (\<open>None\<close>, on which the following \<open>.get\<close> raises).
\<close>

record exif_info =
  dateTimeOriginal :: "string option"
  exif_latitude :: "real option"
  exif_longitude :: "real option"
  exifImageWidth :: "int option"
  exifImageHeight :: "int option"

datatype exif_field = Absent | Null | Present exif_info

record asset =
  asset_key :: string
  exifInfo :: exif_field
  fileCreatedAt :: "string option"
  fileModifiedAt :: "string option"
  originalWidth :: "int option"
  originalHeight :: "int option"

record client =
  search_assets :: "search_params \<Rightarrow> error + string set"
  get_asset_metadata :: "string \<Rightarrow> error + asset"

text \<open>
  The remote calls a run performs, in order.  The worker pool of the resolution filter
  submits one fetch per asset id of the batch; the batch is one event, since the order
  inside it is not determined.
\<close>

datatype call = Search search_params | FetchBatch "string set"

subsection \<open>ResolutionFilter\<close>

definition empty_exif :: exif_info where
  "empty_exif = \<lparr>dateTimeOriginal = None, exif_latitude = None, exif_longitude = None,
                  exifImageWidth = None, exifImageHeight = None\<rparr>"

text \<open>Truthiness of an optional number: \<open>None\<close> and zero are false.\<close>

fun nonzero :: "int option \<Rightarrow> bool" where
  "nonzero None = False"
| "nonzero (Some n) = (n \<noteq> 0)"

text \<open>
  \<open>_extract_resolution\<close>: \<open>Inl\<close> when \<open>exifInfo\<close> is null (AttributeError), otherwise
  the EXIF pair if both entries are truthy, else the original pair if both are truthy,
  else \<open>None\<close>.
\<close>

definition extract_resolution :: "asset \<Rightarrow> error + (int \<times> int) option" where
  "extract_resolution a =
     (case exifInfo a of
        Null \<Rightarrow> Inl AttributeError
      | ex \<Rightarrow>
          (let exif = (case ex of Present e \<Rightarrow> e | _ \<Rightarrow> empty_exif);
               exif_width = exifImageWidth exif;
               exif_height = exifImageHeight exif
           in if nonzero exif_width \<and> nonzero exif_height
              then Inr (Some (the exif_width, the exif_height))
              else if nonzero (originalWidth a) \<and> nonzero (originalHeight a)
              then Inr (Some (the (originalWidth a), the (originalHeight a)))
              else Inr None))"

text \<open>
  \<open>check_single_asset\<close>: whether the worker returns the asset id.  Any exception of the
  fetch or of the extraction is caught and gives \<open>None\<close>.  The target set holds
  \<open>tuple(res)\<close> for each configured entry, so the pair \<open>(w, h)\<close> is in it exactly when
  \<open>[w, h]\<close> is an entry.
\<close>

definition check_single_asset :: "client \<Rightarrow> int list list \<Rightarrow> string \<Rightarrow> bool" where
  "check_single_asset cl target_resolutions asset_id =
     (case get_asset_metadata cl asset_id of
        Inl e \<Rightarrow> False
      | Inr asset_data \<Rightarrow>
          (case extract_resolution asset_data of
             Inl e \<Rightarrow> False
           | Inr None \<Rightarrow> False
           | Inr (Some (w, h)) \<Rightarrow> [w, h] \<in> set target_resolutions))"

definition filter_by_resolution ::
  "client \<Rightarrow> string set \<Rightarrow> int list list \<Rightarrow> call list \<times> string set" where
  "filter_by_resolution cl asset_ids target_resolutions =
     (if asset_ids = {} \<or> target_resolutions = [] then ([], {})
      else ([FetchBatch asset_ids],
            Set.filter (check_single_asset cl target_resolutions) asset_ids))"

subsection \<open>The evaluator\<close>

text \<open>
  \<open>_evaluate_leaf\<close>.  \<open>search_params\<close> starts from the date filters (\<open>if date_filters\<close>
  skips \<open>None\<close> and the empty dictionary, for which \<open>update\<close> changes nothing) and gets
  one key per active field.  The result is the trace of remote calls and the returned set
  or the exception of the search.
\<close>

definition put_favorite :: "filter_condition \<Rightarrow> search_params \<Rightarrow> search_params" where
  "put_favorite c sp =
     (case is_favorite c of None \<Rightarrow> sp | Some f \<Rightarrow> sp(''is_favorite'' \<mapsto> PBool f))"

definition put_asset_types :: "filter_condition \<Rightarrow> search_params \<Rightarrow> search_params" where
  "put_asset_types c sp =
     (case asset_types c of None \<Rightarrow> sp | Some ts \<Rightarrow> sp(''asset_types'' \<mapsto> PList ts))"

definition put_camera_make :: "filter_condition \<Rightarrow> search_params \<Rightarrow> search_params" where
  "put_camera_make c sp =
     (if truthy (camera_make c) then sp(''camera_make'' \<mapsto> PStr (the (camera_make c))) else sp)"

definition put_camera_model :: "filter_condition \<Rightarrow> search_params \<Rightarrow> search_params" where
  "put_camera_model c sp =
     (if truthy (camera_model c) then sp(''camera_model'' \<mapsto> PStr (the (camera_model c))) else sp)"

definition leaf_params :: "search_params option \<Rightarrow> filter_condition \<Rightarrow> search_params" where
  "leaf_params date_filters c =
     put_camera_model c (put_camera_make c (put_asset_types c (put_favorite c
       (case date_filters of None \<Rightarrow> Map.empty | Some d \<Rightarrow> d))))"

definition evaluate_leaf ::
  "client \<Rightarrow> string set option \<Rightarrow> search_params option \<Rightarrow> filter_condition
     \<Rightarrow> call list \<times> (error + string set)" where
  "evaluate_leaf cl base_assets date_filters c =
     (if \<not> has_filters c then
        ([], Inr (case base_assets of Some b \<Rightarrow> b | None \<Rightarrow> {}))
      else
        (let sp = leaf_params date_filters c in
         case person_ids c of
           Some [] \<Rightarrow> ([], Inr {})
         | pids \<Rightarrow>
            (let search_params =
                   (case pids of None \<Rightarrow> sp | Some ps \<Rightarrow> sp(''include_people_ids'' \<mapsto> PList ps))
             in case search_assets cl search_params of
                  Inl e \<Rightarrow> ([Search search_params], Inl e)
                | Inr found \<Rightarrow>
                   (let asset_ids = (case base_assets of Some b \<Rightarrow> found \<inter> b | None \<Rightarrow> found)
                    in if truthy (resolution c) \<and> asset_ids \<noteq> {} then
                         (case filter_by_resolution cl asset_ids (the (resolution c)) of
                            (t, kept) \<Rightarrow> (Search search_params # t, Inr kept))
                       else ([Search search_params], Inr asset_ids)))))"

text \<open>
  \<open>evaluate\<close>.  The AND loop carries \<open>result\<close> (\<open>None\<close> before the first child) and
  returns the empty set as soon as the running intersection is empty; the OR loop carries
  the running union.  An exception of a child ends the evaluation.
\<close>

fun evaluate ::
    "client \<Rightarrow> string set option \<Rightarrow> search_params option \<Rightarrow> condition_node
       \<Rightarrow> call list \<times> (error + string set)"
  and and_loop ::
    "client \<Rightarrow> string set option \<Rightarrow> search_params option \<Rightarrow> string set option
       \<Rightarrow> condition_node list \<Rightarrow> call list \<times> (error + string set)"
  and or_loop ::
    "client \<Rightarrow> string set option \<Rightarrow> search_params option \<Rightarrow> string set
       \<Rightarrow> condition_node list \<Rightarrow> call list \<times> (error + string set)"
where
  "evaluate cl base_assets date_filters (LEAF c) = evaluate_leaf cl base_assets date_filters c"
| "evaluate cl base_assets date_filters (AND cs) =
     (if cs = [] then ([], Inr {}) else and_loop cl base_assets date_filters None cs)"
| "evaluate cl base_assets date_filters (OR cs) = or_loop cl base_assets date_filters {} cs"
| "and_loop cl base_assets date_filters result [] =
     ([], Inr (case result of Some r \<Rightarrow> r | None \<Rightarrow> {}))"
| "and_loop cl base_assets date_filters result (child # rest) =
     (case evaluate cl base_assets date_filters child of
        (t, Inl e) \<Rightarrow> (t, Inl e)
      | (t, Inr child_result) \<Rightarrow>
          (let result' = (case result of None \<Rightarrow> child_result | Some r \<Rightarrow> r \<inter> child_result)
           in if result' = {} then (t, Inr {})
              else (case and_loop cl base_assets date_filters (Some result') rest of
                      (t', out) \<Rightarrow> (t @ t', out))))"
| "or_loop cl base_assets date_filters result [] = ([], Inr result)"
| "or_loop cl base_assets date_filters result (child # rest) =
     (case evaluate cl base_assets date_filters child of
        (t, Inl e) \<Rightarrow> (t, Inl e)
      | (t, Inr child_result) \<Rightarrow>
          (case or_loop cl base_assets date_filters (result \<union> child_result) rest of
             (t', out) \<Rightarrow> (t @ t', out)))"

subsection \<open>Construction from configuration\<close>

text \<open>
  A configuration value as the YAML loader gives it.  A mapping is the list of its
  entries; \<open>map_of\<close> looks a key up.
\<close>

datatype config =
    CNull
  | CBool bool
  | CInt int
  | CStr string
  | CList "config list"
  | CDict "(string \<times> config) list"

text \<open>Python truthiness of a configuration value.\<close>

fun config_truthy :: "config \<Rightarrow> bool" where
  "config_truthy CNull = False"
| "config_truthy (CBool b) = b"
| "config_truthy (CInt n) = (n \<noteq> 0)"
| "config_truthy (CStr s) = (s \<noteq> [])"
| "config_truthy (CList xs) = (xs \<noteq> [])"
| "config_truthy (CDict kvs) = (kvs \<noteq> [])"

text \<open>
  The constructor of \<open>ConditionNode\<close> for a connective: it raises when there are no
  children.
\<close>

definition mk_node ::
  "(condition_node list \<Rightarrow> condition_node) \<Rightarrow> string \<Rightarrow> condition_node list \<Rightarrow> error + condition_node" where
  "mk_node connective name children =
     (if children = [] then Inl (ValueError (name @ '' node must have at least one child''))
      else Inr (connective children))"

text \<open>\<open>str.upper\<close>, on ASCII letters.\<close>

definition upper_char :: "char \<Rightarrow> char" where
  "upper_char c =
     (let n = (of_char c :: nat) in if 97 \<le> n \<and> n \<le> 122 then char_of (n - 32) else c)"

definition upper :: "string \<Rightarrow> string" where
  "upper s = map upper_char s"

text \<open>
  Reading a configuration value at the type a \<open>FilterCondition\<close> field declares.  A
  missing key and null both give \<open>None\<close> (the result of \<open>dict.get\<close>).
\<close>

fun as_strings :: "config list \<Rightarrow> string list option" where
  "as_strings [] = Some []"
| "as_strings (CStr s # xs) = map_option (Cons s) (as_strings xs)"
| "as_strings (x # xs) = None"

fun as_ints :: "config list \<Rightarrow> int list option" where
  "as_ints [] = Some []"
| "as_ints (CInt n # xs) = map_option (Cons n) (as_ints xs)"
| "as_ints (x # xs) = None"

fun as_int_lists :: "config list \<Rightarrow> int list list option" where
  "as_int_lists [] = Some []"
| "as_int_lists (CList r # xs) =
     (case as_ints r of None \<Rightarrow> None | Some ns \<Rightarrow> map_option (Cons ns) (as_int_lists xs))"
| "as_int_lists (x # xs) = None"

fun opt_bool :: "string \<Rightarrow> config option \<Rightarrow> error + bool option" where
  "opt_bool key None = Inr None"
| "opt_bool key (Some CNull) = Inr None"
| "opt_bool key (Some (CBool b)) = Inr (Some b)"
| "opt_bool key (Some v) = Inl (IllTyped key)"

fun opt_string :: "string \<Rightarrow> config option \<Rightarrow> error + string option" where
  "opt_string key None = Inr None"
| "opt_string key (Some CNull) = Inr None"
| "opt_string key (Some (CStr s)) = Inr (Some s)"
| "opt_string key (Some v) = Inl (IllTyped key)"

fun opt_strings :: "string \<Rightarrow> config option \<Rightarrow> error + string list option" where
  "opt_strings key None = Inr None"
| "opt_strings key (Some CNull) = Inr None"
| "opt_strings key (Some (CList xs)) =
     (case as_strings xs of None \<Rightarrow> Inl (IllTyped key) | Some ss \<Rightarrow> Inr (Some ss))"
| "opt_strings key (Some v) = Inl (IllTyped key)"

text \<open>
  The steps of \<open>_parse_leaf_condition\<close>, in the order of the source; each takes the
  mapping and the condition built so far.
\<close>

definition parse_is_favorite ::
  "(string \<times> config) list \<Rightarrow> filter_condition \<Rightarrow> error + filter_condition" where
  "parse_is_favorite cfg c =
     (case map_of cfg ''is_favorite'' of
        None \<Rightarrow> Inr c
      | Some v \<Rightarrow>
          (case opt_bool ''is_favorite'' (Some v) of
             Inl e \<Rightarrow> Inl e
           | Inr f \<Rightarrow> Inr (c\<lparr>is_favorite := f\<rparr>)))"

text \<open>
  A value that is not a list is wrapped into one; \<open>t.upper()\<close> raises on anything
  that is not a string.
\<close>

definition parse_asset_types ::
  "(string \<times> config) list \<Rightarrow> filter_condition \<Rightarrow> error + filter_condition" where
  "parse_asset_types cfg c =
     (case map_of cfg ''asset_types'' of
        None \<Rightarrow> Inr c
      | Some v \<Rightarrow>
          (case as_strings (case v of CList xs \<Rightarrow> xs | _ \<Rightarrow> [v]) of
             None \<Rightarrow> Inl AttributeError
           | Some ts \<Rightarrow> Inr (c\<lparr>asset_types := Some (map upper ts)\<rparr>)))"

definition parse_camera ::
  "(string \<times> config) list \<Rightarrow> filter_condition \<Rightarrow> error + filter_condition" where
  "parse_camera cfg c =
     (case map_of cfg ''camera'' of
        Some (CDict camera) \<Rightarrow>
          (case opt_string ''camera.make'' (map_of camera ''make'') of
             Inl e \<Rightarrow> Inl e
           | Inr mk \<Rightarrow>
               (case opt_string ''camera.model'' (map_of camera ''model'') of
                  Inl e \<Rightarrow> Inl e
                | Inr md \<Rightarrow> Inr (c\<lparr>camera_make := mk, camera_model := md\<rparr>)))
      | _ \<Rightarrow> Inr c)"

text \<open>
  The resolver is \<open>people_resolver.resolve_people_names\<close>, or \<open>None\<close> when no resolver is
  passed.  It receives the value of \<open>include\<close> as it is and may raise.  A falsy answer
  (\<open>None\<close> or the empty list) leaves the empty list in \<open>person_ids\<close>.
\<close>

type_synonym people_resolver = "(config \<Rightarrow> error + string list option) option"

definition parse_people ::
  "people_resolver \<Rightarrow> (string \<times> config) list \<Rightarrow> filter_condition \<Rightarrow> error + filter_condition" where
  "parse_people resolver cfg c =
     (case map_of cfg ''people'' of
        Some (CDict people) \<Rightarrow>
          (let include_people = (case map_of people ''include'' of None \<Rightarrow> CList [] | Some v \<Rightarrow> v)
           in case resolver of
                None \<Rightarrow> Inr c
              | Some resolve_people_names \<Rightarrow>
                  (if config_truthy include_people then
                     (case resolve_people_names include_people of
                        Inl e \<Rightarrow> Inl e
                      | Inr pids \<Rightarrow>
                          Inr (c\<lparr>person_ids := (if truthy pids then pids else Some [])\<rparr>))
                   else Inr c))
      | _ \<Rightarrow> Inr c)"

definition parse_tags ::
  "(string \<times> config) list \<Rightarrow> filter_condition \<Rightarrow> error + filter_condition" where
  "parse_tags cfg c =
     (case map_of cfg ''tags'' of
        Some (CDict tags) \<Rightarrow>
          (case opt_strings ''tags.include'' (map_of tags ''include'') of
             Inl e \<Rightarrow> Inl e
           | Inr inc \<Rightarrow>
               (case opt_strings ''tags.exclude'' (map_of tags ''exclude'') of
                  Inl e \<Rightarrow> Inl e
                | Inr exc \<Rightarrow> Inr (c\<lparr>include_tags := inc, exclude_tags := exc\<rparr>)))
      | _ \<Rightarrow> Inr c)"

definition parse_resolution ::
  "(string \<times> config) list \<Rightarrow> filter_condition \<Rightarrow> error + filter_condition" where
  "parse_resolution cfg c =
     (case map_of cfg ''resolution'' of
        Some (CDict res) \<Rightarrow>
          (let include_resolutions = (case map_of res ''include'' of None \<Rightarrow> CList [] | Some v \<Rightarrow> v)
           in if config_truthy include_resolutions then
                (case include_resolutions of
                   CList rs \<Rightarrow>
                     (case as_int_lists rs of
                        None \<Rightarrow> Inl (IllTyped ''resolution.include'')
                      | Some sizes \<Rightarrow> Inr (c\<lparr>resolution := Some sizes\<rparr>))
                 | _ \<Rightarrow> Inl (IllTyped ''resolution.include''))
              else Inr c)
      | _ \<Rightarrow> Inr c)"

definition parse_leaf_condition ::
  "people_resolver \<Rightarrow> (string \<times> config) list \<Rightarrow> error + condition_node" where
  "parse_leaf_condition resolver cfg =
     (case parse_is_favorite cfg FilterCondition of Inl e \<Rightarrow> Inl e | Inr c1 \<Rightarrow>
       (case parse_asset_types cfg c1 of Inl e \<Rightarrow> Inl e | Inr c2 \<Rightarrow>
         (case parse_camera cfg c2 of Inl e \<Rightarrow> Inl e | Inr c3 \<Rightarrow>
           (case parse_people resolver cfg c3 of Inl e \<Rightarrow> Inl e | Inr c4 \<Rightarrow>
             (case parse_tags cfg c4 of Inl e \<Rightarrow> Inl e | Inr c5 \<Rightarrow>
               (case parse_resolution cfg c5 of Inl e \<Rightarrow> Inl e | Inr c6 \<Rightarrow>
                  Inr (LEAF c6)))))))"

text \<open>
  \<open>from_config\<close>, with the list comprehension over the operands as \<open>from_configs\<close>: the
  first operand that raises ends the construction.  The messages of the exceptions are
  written without their quotation marks.
\<close>

function from_config :: "people_resolver \<Rightarrow> config \<Rightarrow> error + condition_node"
  and from_configs :: "people_resolver \<Rightarrow> config list \<Rightarrow> error + condition_node list"
where
  "from_config resolver (CDict cfg) =
     (case map_of cfg ''and'' of
        Some operands \<Rightarrow>
          (case operands of
             CList ops \<Rightarrow>
               (case from_configs resolver ops of
                  Inl e \<Rightarrow> Inl e
                | Inr children \<Rightarrow> mk_node AND ''and'' children)
           | _ \<Rightarrow> Inl (ValueError ''and: must be a list of conditions''))
      | None \<Rightarrow>
          (case map_of cfg ''or'' of
             Some operands \<Rightarrow>
               (case operands of
                  CList ops \<Rightarrow>
                    (case from_configs resolver ops of
                       Inl e \<Rightarrow> Inl e
                     | Inr children \<Rightarrow> mk_node OR ''or'' children)
                | _ \<Rightarrow> Inl (ValueError ''or: must be a list of conditions''))
           | None \<Rightarrow> parse_leaf_condition resolver cfg))"
| "from_config resolver CNull = Inl (ValueError ''Invalid condition config type: NoneType'')"
| "from_config resolver (CBool b) = Inl (ValueError ''Invalid condition config type: bool'')"
| "from_config resolver (CInt n) = Inl (ValueError ''Invalid condition config type: int'')"
| "from_config resolver (CStr s) = Inl (ValueError ''Invalid condition config type: str'')"
| "from_config resolver (CList xs) = Inl (ValueError ''Invalid condition config type: list'')"
| "from_configs resolver [] = Inr []"
| "from_configs resolver (operand # rest) =
     (case from_config resolver operand of
        Inl e \<Rightarrow> Inl e
      | Inr child \<Rightarrow>
          (case from_configs resolver rest of
             Inl e \<Rightarrow> Inl e
           | Inr children \<Rightarrow> Inr (child # children)))"
  by pat_completeness auto

lemma map_of_size:
  "map_of cfg k = Some v \<Longrightarrow> size v < Suc (size_list (size_prod (\<lambda>_. 0) size) cfg)"
  by (induction cfg) (auto split: if_splits)

termination from_config
  apply (relation "measure (\<lambda>x. case x of Inl (r, c) \<Rightarrow> size c | Inr (r, cs) \<Rightarrow> size_list size cs)")
      apply simp
     apply (drule map_of_size, simp)
    apply (drule map_of_size, simp)
   apply simp
  apply simp
  done

subsection \<open>Normal forms of the optimizer\<close>

text \<open>
  The trees \<open>optimize\<close> leaves unchanged: a connective has at least two children, none
  of its own type, all normal, and the children of an AND do not combine.
\<close>

fun normal :: "condition_node \<Rightarrow> bool" where
  "normal (LEAF c) = True"
| "normal (AND cs) = (2 \<le> length cs \<and> list_all (\<lambda>c. normal c \<and> \<not> is_and c) cs \<and> combine_and_leaves cs = None)"
| "normal (OR cs) = (2 \<le> length cs \<and> list_all (\<lambda>c. normal c \<and> \<not> is_or c) cs)"

subsection \<open>Predicates on the leaves of an AND node\<close>

text \<open>
  A leaf supplies people when \<open>if cond.person_ids\<close> holds, and admits an asset type when
  its \<open>asset_types\<close> is unset or lists that type.
\<close>

definition supplies_people :: "filter_condition \<Rightarrow> bool" where
  "supplies_people c = truthy (person_ids c)"

definition admits_type :: "string \<Rightarrow> filter_condition \<Rightarrow> bool" where
  "admits_type ty c = (case asset_types c of None \<Rightarrow> True | Some ts \<Rightarrow> ty \<in> set ts)"

subsection \<open>A conjunctive search service\<close>

text \<open>
  What the search service knows of an asset, and a service that answers a query with
  the assets of its library that satisfy every filter of the query: the favourite flag
  as asked, the type among the listed types, the make and the model as asked, and all
  the listed people present (the behaviour the comments of
  \<open>ImmichClient.search_assets\<close> describe for \<open>personIds\<close>).  The remaining keys of the
  query, the date range among them, are judged by \<open>extra\<close>.
\<close>

record asset_facts =
  fact_favorite :: bool
  fact_type :: string
  fact_make :: string
  fact_model :: string
  fact_people :: "string list"

definition leaf_keys :: "string set" where
  "leaf_keys = {''is_favorite'', ''asset_types'', ''camera_make'', ''camera_model'',
                ''include_people_ids''}"

definition satisfies :: "asset_facts \<Rightarrow> search_params \<Rightarrow> bool" where
  "satisfies a sp \<longleftrightarrow>
     (case sp ''is_favorite'' of Some (PBool f) \<Rightarrow> fact_favorite a = f | _ \<Rightarrow> True) \<and>
     (case sp ''asset_types'' of Some (PList ts) \<Rightarrow> fact_type a \<in> set ts | _ \<Rightarrow> True) \<and>
     (case sp ''camera_make'' of Some (PStr m) \<Rightarrow> fact_make a = m | _ \<Rightarrow> True) \<and>
     (case sp ''camera_model'' of Some (PStr m) \<Rightarrow> fact_model a = m | _ \<Rightarrow> True) \<and>
     (case sp ''include_people_ids'' of Some (PList ps) \<Rightarrow> set ps \<subseteq> set (fact_people a) | _ \<Rightarrow> True)"

definition conjunctive_search ::
  "string set \<Rightarrow> (string \<Rightarrow> asset_facts) \<Rightarrow> (string \<Rightarrow> search_params \<Rightarrow> bool)
     \<Rightarrow> search_params \<Rightarrow> error + string set" where
  "conjunctive_search library facts extra sp =
     Inr (Set.filter (\<lambda>i. extra i (sp |` (- leaf_keys)) \<and> satisfies (facts i) sp) library)"


subsection \<open>Trees on which combination is exact\<close>


definition queried :: "filter_condition \<Rightarrow> bool" where
  "queried c \<longleftrightarrow> has_filters c \<and> \<not> truthy (resolution c) \<and> person_ids c \<noteq> Some []"

definition mergeable_leaf :: "string set option \<Rightarrow> filter_condition \<Rightarrow> bool" where
  "mergeable_leaf base_assets c = (if has_filters c then queried c else base_assets \<noteq> None)"

text \<open>
  The combinations that \<open>optimize\<close> performs, judged where they happen: on the children
  an AND node has when \<open>_combine_and_leaves\<close> runs.  A combination that fails changes
  nothing.  One that succeeds is exact when all the leaves are without filters, or when
  each leaf can take part and the result is not the leaf without filters (which is what
  an empty asset-type intersection returns).  \<open>exact_merges\<close> asks this of every AND
  node of a tree, and of every connective that it has children.
\<close>

definition exact_combination :: "string set option \<Rightarrow> condition_node list \<Rightarrow> bool" where
  "exact_combination base_assets children =
     (case combine_and_leaves children of
        None \<Rightarrow> True
      | Some n \<Rightarrow>
          list_all (\<lambda>c. \<not> has_filters c) (leaf_conditions children) \<or>
          (n \<noteq> LEAF FilterCondition \<and>
           list_all (mergeable_leaf base_assets) (leaf_conditions children)))"

fun exact_merges :: "string set option \<Rightarrow> condition_node \<Rightarrow> bool" where
  "exact_merges base_assets (LEAF c) = True"
| "exact_merges base_assets (AND cs) =
     (cs \<noteq> [] \<and> list_all (exact_merges base_assets) cs \<and>
      exact_combination base_assets (flatten_and (map optimize cs)))"
| "exact_merges base_assets (OR cs) = (cs \<noteq> [] \<and> list_all (exact_merges base_assets) cs)"











section \<open>The proximity matcher (src/src/fuzzy_matcher.py)\<close>

text \<open>
  A \<open>datetime\<close> is the number of microseconds since the epoch, a \<open>timedelta\<close> a number of
  microseconds, and a Python float a real number: the arithmetic of the source is read
  without rounding.
\<close>

record asset_metadata =
  asset_id :: string
  timestamp :: "int option"
  latitude :: "real option"
  longitude :: "real option"

text \<open>
  What the matcher takes from its libraries: \<open>dateutil\<close>'s parser (\<open>None\<close> when it
  raises), \<open>datetime.isoformat\<close>, \<open>random.sample\<close>, and the order in which \<open>list(s)\<close>
  enumerates a set.
\<close>

record runtime =
  parse_iso8601 :: "string \<Rightarrow> int option"
  isoformat :: "int \<Rightarrow> string"
  random_sample :: "string list \<Rightarrow> nat \<Rightarrow> string list"
  enumerate_set :: "string set \<Rightarrow> string list"

record fuzzy_matcher =
  matcher_client :: client
  time_window :: int
  location_radius :: real

definition MAX_FUZZY_SEEDS :: nat where
  "MAX_FUZZY_SEEDS = 50"

text \<open>The constructor: \<open>timedelta(minutes=time_window_minutes)\<close>.\<close>

definition FuzzyMatcher :: "client \<Rightarrow> int \<Rightarrow> real \<Rightarrow> fuzzy_matcher" where
  "FuzzyMatcher cl time_window_minutes location_radius_meters =
     \<lparr>matcher_client = cl,
      time_window = time_window_minutes * 60000000,
      location_radius = location_radius_meters\<rparr>"

definition total_seconds :: "int \<Rightarrow> real" where
  "total_seconds delta = real_of_int delta / 1000000"

text \<open>A \<open>try\<close> around the parser: the timestamp stays \<open>None\<close> when the parser raises.\<close>

definition try_parse :: "runtime \<Rightarrow> string option \<Rightarrow> int option" where
  "try_parse rt field = (if truthy field then parse_iso8601 rt (the field) else None)"

text \<open>
  \<open>_extract_metadata\<close>: \<open>Inl\<close> when \<open>exifInfo\<close> is null, \<open>Inr None\<close> when no timestamp
  is found.
\<close>

definition extract_metadata :: "runtime \<Rightarrow> asset \<Rightarrow> error + asset_metadata option" where
  "extract_metadata rt a =
     (case exifInfo a of
        Null \<Rightarrow> Inl AttributeError
      | ex \<Rightarrow>
          (let exif = (case ex of Present e \<Rightarrow> e | _ \<Rightarrow> empty_exif);
               t1 = try_parse rt (dateTimeOriginal exif);
               t2 = (if t1 = None then try_parse rt (fileCreatedAt a) else t1);
               t3 = (if t2 = None then try_parse rt (fileModifiedAt a) else t2)
           in if t3 = None then Inr None
              else Inr (Some \<lparr>asset_id = asset_key a, timestamp = t3,
                               latitude = exif_latitude exif,
                               longitude = exif_longitude exif\<rparr>)))"

text \<open>\<open>fetch_single\<close>: any exception of the fetch or of the extraction gives \<open>None\<close>.\<close>

definition fetch_single :: "fuzzy_matcher \<Rightarrow> runtime \<Rightarrow> string \<Rightarrow> asset_metadata option" where
  "fetch_single fm rt aid =
     (case get_asset_metadata (matcher_client fm) aid of
        Inl e \<Rightarrow> None
      | Inr asset_data \<Rightarrow>
          (case extract_metadata rt asset_data of Inl e \<Rightarrow> None | Inr m \<Rightarrow> m))"

definition fetch_asset_metadata ::
  "fuzzy_matcher \<Rightarrow> runtime \<Rightarrow> string set \<Rightarrow> asset_metadata list" where
  "fetch_asset_metadata fm rt asset_ids =
     List.map_filter (fetch_single fm rt) (enumerate_set rt asset_ids)"

text \<open>
  \<open>_calculate_time_boundaries\<close>.  It raises when no metadata has a timestamp, and the
  parser's exception on a rule boundary is not caught.
\<close>

definition clamp_start :: "runtime \<Rightarrow> (string \<rightharpoonup> string) \<Rightarrow> string \<Rightarrow> int \<Rightarrow> error + int" where
  "clamp_start rt filters key start_time =
     (case filters key of
        None \<Rightarrow> Inr start_time
      | Some s \<Rightarrow>
          (case parse_iso8601 rt s of
             None \<Rightarrow> Inl ParserError
           | Some rule_start \<Rightarrow> Inr (max start_time rule_start)))"

definition clamp_end :: "runtime \<Rightarrow> (string \<rightharpoonup> string) \<Rightarrow> string \<Rightarrow> int \<Rightarrow> error + int" where
  "clamp_end rt filters key end_time =
     (case filters key of
        None \<Rightarrow> Inr end_time
      | Some s \<Rightarrow>
          (case parse_iso8601 rt s of
             None \<Rightarrow> Inl ParserError
           | Some rule_end \<Rightarrow> Inr (min end_time rule_end)))"

definition calculate_time_boundaries ::
  "fuzzy_matcher \<Rightarrow> runtime \<Rightarrow> asset_metadata list \<Rightarrow> (string \<rightharpoonup> string) \<Rightarrow> error + int \<times> int" where
  "calculate_time_boundaries fm rt metadata_list rule_date_filters =
     (let timestamps = List.map_filter timestamp metadata_list in
      if timestamps = [] then Inl (ValueError ''No valid timestamps found in metadata'')
      else
        (let start_time = Min (set timestamps) - time_window fm;
             end_time = Max (set timestamps) + time_window fm
         in case clamp_start rt rule_date_filters ''taken_after'' start_time of
              Inl e \<Rightarrow> Inl e
            | Inr s1 \<Rightarrow>
               (case clamp_end rt rule_date_filters ''taken_before'' end_time of
                  Inl e \<Rightarrow> Inl e
                | Inr e1 \<Rightarrow>
                   (case clamp_start rt rule_date_filters ''created_after'' s1 of
                      Inl e \<Rightarrow> Inl e
                    | Inr s2 \<Rightarrow>
                       (case clamp_end rt rule_date_filters ''created_before'' e1 of
                          Inl e \<Rightarrow> Inl e
                        | Inr e2 \<Rightarrow> Inr (s2, e2))))))"

text \<open>\<open>_query_candidates\<close>: an exception of the search is caught and gives the empty set.\<close>

definition query_candidates ::
  "fuzzy_matcher \<Rightarrow> runtime \<Rightarrow> int \<Rightarrow> int \<Rightarrow> (string \<rightharpoonup> string) \<Rightarrow> string set" where
  "query_candidates fm rt start_time end_time rule_date_filters =
     (let use_taken_date =
            (rule_date_filters ''taken_after'' \<noteq> None \<or> rule_date_filters ''taken_before'' \<noteq> None);
          after_key = (if use_taken_date then ''taken_after'' else ''created_after'');
          before_key = (if use_taken_date then ''taken_before'' else ''created_before'')
      in case search_assets (matcher_client fm)
                [after_key \<mapsto> PStr (isoformat rt start_time),
                 before_key \<mapsto> PStr (isoformat rt end_time),
                 ''asset_types'' \<mapsto> PList [''IMAGE'', ''VIDEO''],
                 ''default_to_image'' \<mapsto> PBool False] of
           Inl e \<Rightarrow> {}
         | Inr candidates \<Rightarrow> candidates)"

text \<open>\<open>_haversine_distance\<close>, with \<open>radians x = x * pi / 180\<close>.\<close>

definition radians :: "real \<Rightarrow> real" where
  "radians x = x * pi / 180"

definition haversine_distance :: "real \<Rightarrow> real \<Rightarrow> real \<Rightarrow> real \<Rightarrow> real" where
  "haversine_distance lat1 lon1 lat2 lon2 =
     (let R = 6371000;
          dlat = radians lat2 - radians lat1;
          dlon = radians lon2 - radians lon1;
          a = (sin (dlat / 2))\<^sup>2 + cos (radians lat1) * cos (radians lat2) * (sin (dlon / 2))\<^sup>2;
          c = 2 * arcsin (sqrt a)
      in R * c)"

text \<open>Truthiness of an optional float: \<open>None\<close> and \<open>0.0\<close> are false.\<close>

fun truthy_float :: "real option \<Rightarrow> bool" where
  "truthy_float None = False"
| "truthy_float (Some x) = (x \<noteq> 0)"

text \<open>
  The body of the inner loop of \<open>_filter_by_proximity\<close>: whether the comparison of the
  candidate with this exact match reaches \<open>fuzzy_matches.add\<close> (every \<open>continue\<close> is
  \<open>False\<close>).  The candidate's timestamp has been checked by the outer loop.
\<close>

definition within_proximity :: "fuzzy_matcher \<Rightarrow> int \<Rightarrow> asset_metadata \<Rightarrow> asset_metadata \<Rightarrow> bool" where
  "within_proximity fm candidate_time candidate exact =
     (case timestamp exact of
        None \<Rightarrow> False
      | Some exact_time \<Rightarrow>
          (let time_diff = \<bar>total_seconds (candidate_time - exact_time)\<bar> in
           if time_diff > total_seconds (time_window fm) then False
           else if truthy_float (latitude candidate) \<and> truthy_float (longitude candidate) \<and>
                   truthy_float (latitude exact) \<and> truthy_float (longitude exact) then
             (let distance = haversine_distance (the (latitude candidate)) (the (longitude candidate))
                                                (the (latitude exact)) (the (longitude exact))
              in if distance > location_radius fm then False else True)
           else True))"

definition is_fuzzy_match :: "fuzzy_matcher \<Rightarrow> asset_metadata list \<Rightarrow> asset_metadata \<Rightarrow> bool" where
  "is_fuzzy_match fm exact_metadata candidate =
     (case timestamp candidate of
        None \<Rightarrow> False
      | Some candidate_time \<Rightarrow> list_ex (within_proximity fm candidate_time candidate) exact_metadata)"

definition filter_by_proximity ::
  "fuzzy_matcher \<Rightarrow> runtime \<Rightarrow> string set \<Rightarrow> asset_metadata list \<Rightarrow> string set" where
  "filter_by_proximity fm rt candidates exact_metadata =
     (if candidates = {} then {}
      else
        (let candidate_metadata = fetch_asset_metadata fm rt candidates in
         if candidate_metadata = [] then {}
         else set (map asset_id (filter (is_fuzzy_match fm exact_metadata) candidate_metadata))))"

text \<open>
  \<open>find_related_assets\<close>.  \<open>sampled_ids\<close> is the whole set up to \<open>MAX_FUZZY_SEEDS\<close>
  elements and a random sample beyond.
\<close>

definition sampled_ids :: "runtime \<Rightarrow> string set \<Rightarrow> string set" where
  "sampled_ids rt exact_match_ids =
     (if card exact_match_ids > MAX_FUZZY_SEEDS
      then set (random_sample rt (enumerate_set rt exact_match_ids) MAX_FUZZY_SEEDS)
      else exact_match_ids)"

definition find_related_assets ::
  "fuzzy_matcher \<Rightarrow> runtime \<Rightarrow> string set \<Rightarrow> (string \<rightharpoonup> string) \<Rightarrow> error + string set" where
  "find_related_assets fm rt exact_match_ids rule_date_filters =
     (if exact_match_ids = {} then Inr {}
      else
        (let exact_metadata = fetch_asset_metadata fm rt (sampled_ids rt exact_match_ids) in
         if exact_metadata = [] then Inr {}
         else
           (case calculate_time_boundaries fm rt exact_metadata rule_date_filters of
              Inl e \<Rightarrow> Inl e
            | Inr (start_time, end_time) \<Rightarrow>
               (let candidates = query_candidates fm rt start_time end_time rule_date_filters in
                if candidates = {} then Inr {}
                else Inr (filter_by_proximity fm rt candidates exact_metadata - exact_match_ids)))))"

section \<open>Concrete inputs\<close>

definition favorite_leaf :: filter_condition where
  "favorite_leaf = FilterCondition\<lparr>is_favorite := Some True\<rparr>"

definition image_leaf :: filter_condition where
  "image_leaf = FilterCondition\<lparr>asset_types := Some [''IMAGE'']\<rparr>"

definition video_leaf :: filter_condition where
  "video_leaf = FilterCondition\<lparr>asset_types := Some [''VIDEO'']\<rparr>"

definition resolution_leaf :: filter_condition where
  "resolution_leaf = FilterCondition\<lparr>resolution := Some [[1920, 1080]]\<rparr>"

definition nobody_leaf :: filter_condition where
  "nobody_leaf = FilterCondition\<lparr>is_favorite := Some True, person_ids := Some []\<rparr>"

text \<open>A client whose every search returns the one asset \<open>a1\<close> and whose fetches fail.\<close>

definition constant_client :: client where
  "constant_client =
     \<lparr>search_assets = (\<lambda>sp. Inr {''a1''}),
      get_asset_metadata = (\<lambda>i. Inl (RemoteError ''unreachable''))\<rparr>"

definition taken_2025 :: search_params where
  "taken_2025 = [''taken_after'' \<mapsto> PStr ''2025-01-01T00:00:00.000Z'']"

definition alice_image_leaf :: filter_condition where
  "alice_image_leaf =
     FilterCondition\<lparr>asset_types := Some [''IMAGE''], person_ids := Some [''alice-id'']\<rparr>"
definition bob_video_leaf :: filter_condition where
  "bob_video_leaf = FilterCondition\<lparr>asset_types := Some [''VIDEO''], person_ids := Some [''bob-id'']\<rparr>"
text \<open>
  Two assets with EXIF dimensions 1920x1080 and 3840x2160, and a client that serves them.
\<close>

definition hd_asset :: asset where
  "hd_asset =
     \<lparr>asset_key = ''asset1'',
      exifInfo = Present (empty_exif\<lparr>exifImageWidth := Some 1920, exifImageHeight := Some 1080\<rparr>),
      fileCreatedAt = None, fileModifiedAt = None,
      originalWidth = Some 4000, originalHeight = Some 3000\<rparr>"

definition uhd_asset :: asset where
  "uhd_asset =
     \<lparr>asset_key = ''asset2'',
      exifInfo = Present (empty_exif\<lparr>exifImageWidth := Some 3840, exifImageHeight := Some 2160\<rparr>),
      fileCreatedAt = None, fileModifiedAt = None,
      originalWidth = None, originalHeight = None\<rparr>"

definition photo_client :: client where
  "photo_client =
     \<lparr>search_assets = (\<lambda>sp. Inr {''asset1'', ''asset2''}),
      get_asset_metadata = (\<lambda>i. if i = ''asset1'' then Inr hd_asset
                                else if i = ''asset2'' then Inr uhd_asset
                                else Inl (RemoteError ''not found''))\<rparr>"

text \<open>A runtime whose parser knows two instants, one hour apart.\<close>

definition test_runtime :: runtime where
  "test_runtime =
     \<lparr>parse_iso8601 = (\<lambda>s. if s = ''2025-06-15T14:30:00.000Z'' then Some 1749997800000000
                            else if s = ''2025-06-15T15:30:00.000Z'' then Some 1750001400000000
                            else None),
      isoformat = (\<lambda>t. if t = 1749997800000000 then ''2025-06-15T14:30:00+00:00'' else ''other''),
      random_sample = (\<lambda>xs k. take k xs),
      enumerate_set = (\<lambda>s. filter (\<lambda>i. i \<in> s) [''seed'', ''cand''])\<rparr>"

definition undated_asset :: asset where
  "undated_asset =
     \<lparr>asset_key = ''seed'', exifInfo = Absent, fileCreatedAt = None, fileModifiedAt = None,
      originalWidth = None, originalHeight = None\<rparr>"

definition undated_client :: client where
  "undated_client =
     \<lparr>search_assets = (\<lambda>sp. Inr {''seed'', ''cand''}),
      get_asset_metadata = (\<lambda>i. Inr undated_asset)\<rparr>"

definition equator_asset :: asset where
  "equator_asset =
     \<lparr>asset_key = ''cand'',
      exifInfo = Present (empty_exif\<lparr>dateTimeOriginal := Some ''2025-06-15T14:30:00.000Z'',
                                     exif_latitude := Some 0, exif_longitude := Some 100\<rparr>),
      fileCreatedAt = None, fileModifiedAt = None,
      originalWidth = None, originalHeight = None\<rparr>"

definition north_asset :: asset where
  "north_asset =
     \<lparr>asset_key = ''seed'',
      exifInfo = Present (empty_exif\<lparr>dateTimeOriginal := Some ''2025-06-15T14:30:00.000Z'',
                                     exif_latitude := Some 60, exif_longitude := Some 100\<rparr>),
      fileCreatedAt = None, fileModifiedAt = None,
      originalWidth = None, originalHeight = None\<rparr>"

definition gps_client :: client where
  "gps_client =
     \<lparr>search_assets = (\<lambda>sp. Inr {''seed'', ''cand''}),
      get_asset_metadata = (\<lambda>i. if i = ''seed'' then Inr north_asset
                                else if i = ''cand'' then Inr equator_asset
                                else Inl (RemoteError ''not found''))\<rparr>"

definition equator_metadata :: asset_metadata where
  "equator_metadata =
     \<lparr>asset_id = ''cand'', timestamp = Some 1749997800000000,
      latitude = Some 0, longitude = Some 100\<rparr>"

definition north_metadata :: asset_metadata where
  "north_metadata =
     \<lparr>asset_id = ''seed'', timestamp = Some 1749997800000000,
      latitude = Some 60, longitude = Some 100\<rparr>"

text \<open>A mapping with both connectives, \<open>or\<close> first.\<close>

definition favorite_config :: config where
  "favorite_config = CDict [(''is_favorite'', CBool True)]"

definition image_config :: config where
  "image_config = CDict [(''asset_types'', CList [CStr ''image''])]"

definition and_or_config :: "(string \<times> config) list" where
  "and_or_config =
     [(''or'', CList [image_config]),
      (''and'', CList [favorite_config, image_config])]"


definition small_facts :: "string \<Rightarrow> asset_facts" where
  "small_facts i =
     (if i = ''a1''
      then \<lparr>fact_favorite = True, fact_type = ''IMAGE'', fact_make = ''Apple'',
            fact_model = ''iPhone'', fact_people = []\<rparr>
      else \<lparr>fact_favorite = False, fact_type = ''IMAGE'', fact_make = ''Canon'',
            fact_model = ''EOS'', fact_people = []\<rparr>)"

definition small_client :: client where
  "small_client =
     \<lparr>search_assets = conjunctive_search {''a1'', ''a2''} small_facts (\<lambda>i sp. True),
      get_asset_metadata = (\<lambda>i. Inl (RemoteError ''unreachable''))\<rparr>"


text \<open>
  A leaf whose people could not be resolved (the empty person list), and a leaf for one
  resolved person.
\<close>

definition unresolved_leaf :: filter_condition where
  "unresolved_leaf = FilterCondition\<lparr>person_ids := Some []\<rparr>"

definition bob_leaf :: filter_condition where
  "bob_leaf = FilterCondition\<lparr>person_ids := Some [''bob-id'']\<rparr>"

section \<open>Leaf evaluation\<close>

lemma evaluate_leaf_no_people:
  assumes "person_ids c = Some []"
  shows "evaluate_leaf cl base_assets date_filters c = ([], Inr {})"
proof -
  from assms have "has_filters c"
    by (simp add: has_filters_def)
  with assms show ?thesis
    by (simp add: evaluate_leaf_def Let_def)
qed

text \<open>
  The empty person list comes from the construction: a people filter whose names the
  resolver cannot resolve leaves \<open>person_ids = []\<close> in the leaf.
\<close>

lemma unresolved_people_leave_empty_list:
  assumes "config_truthy names" "resolve names = Inr None \<or> resolve names = Inr (Some [])"
  shows "from_config (Some resolve) (CDict [(''people'', CDict [(''include'', names)])]) =
           Inr (LEAF (FilterCondition\<lparr>person_ids := Some []\<rparr>))"
  using assms
  by (auto simp: parse_leaf_condition_def parse_is_favorite_def parse_asset_types_def
      parse_camera_def parse_people_def parse_tags_def parse_resolution_def)

text \<open>
  Claim C7.  A leaf whose \<open>person_ids\<close> is present and empty evaluates to the empty set
  with an empty trace of remote calls, whatever the client, the base set, the date
  filters and the other fields of the leaf are.
\<close>

theorem empty_person_list_short_circuits:
  "person_ids c = Some [] \<Longrightarrow>
     evaluate cl base_assets date_filters (LEAF c) = ([], Inr {})"
  by (simp add: evaluate_leaf_no_people)

theorem empty_person_list_short_circuits_witness:
  "person_ids nobody_leaf = Some [] \<and>
   evaluate constant_client (Some {''a1''}) (Some taken_2025) (LEAF nobody_leaf) = ([], Inr {})"
proof -
  have h: "person_ids nobody_leaf = Some []"
    by (simp add: nobody_leaf_def FilterCondition_def)
  from h empty_person_list_short_circuits [OF h] show ?thesis
    by simp
qed

section \<open>Leaf combination\<close>

text \<open>
  Claim C2, at the AND of an IMAGE-only and a VIDEO-only leaf.  The optimizer returns
  the leaf with a fresh \<open>FilterCondition()\<close>; that leaf has no filters, so its
  evaluation makes no remote call and returns the base set it is given: the asset
  \<open>a1\<close> here, not the empty set.
\<close>

theorem empty_intersection_returns_base:
  "optimize (AND [LEAF image_leaf, LEAF video_leaf]) = LEAF FilterCondition \<and>
   evaluate cl (Some {''a1''}) date_filters (optimize (AND [LEAF image_leaf, LEAF video_leaf]))
     = ([], Inr {''a1''})"
proof -
  have m: "merge_child FilterCondition image_leaf = Inr image_leaf"
    by (simp add: merge_child_def merge_favorite_def merge_asset_types_def
        merge_camera_make_def merge_camera_model_def merge_person_ids_def
        image_leaf_def FilterCondition_def)
  have n: "merge_child image_leaf video_leaf = Inl (Some (LEAF FilterCondition))"
    by (simp add: merge_child_def merge_favorite_def merge_asset_types_def
        intersect_types_def image_leaf_def video_leaf_def FilterCondition_def)
  have o: "optimize (AND [LEAF image_leaf, LEAF video_leaf]) = LEAF FilterCondition"
    by (simp add: combine_and_leaves_def m n)
  have "evaluate cl (Some {''a1''}) date_filters (LEAF FilterCondition) = ([], Inr {''a1''})"
    by (simp add: evaluate_leaf_def has_filters_def FilterCondition_def)
  with o show ?thesis
    by simp
qed

text \<open>
  Claim C4, at the AND of a favourite leaf and a leaf that asks for 1920x1080.  The
  merge succeeds and the combined leaf is the favourite leaf alone: its \<open>resolution\<close>
  is \<open>None\<close>, the loop never reads that field.
\<close>

theorem merge_drops_resolution:
  "combine_and_leaves [LEAF favorite_leaf, LEAF resolution_leaf] = Some (LEAF favorite_leaf) \<and>
   optimize (AND [LEAF favorite_leaf, LEAF resolution_leaf]) = LEAF favorite_leaf \<and>
   resolution favorite_leaf = None \<and>
   resolution resolution_leaf = Some [[1920, 1080]]"
proof -
  have m: "merge_child FilterCondition favorite_leaf = Inr favorite_leaf"
    by (simp add: merge_child_def merge_favorite_def merge_asset_types_def
        merge_camera_make_def merge_camera_model_def merge_person_ids_def
        favorite_leaf_def FilterCondition_def)
  have n: "merge_child favorite_leaf resolution_leaf = Inr favorite_leaf"
    by (simp add: merge_child_def merge_favorite_def merge_asset_types_def
        merge_camera_make_def merge_camera_model_def merge_person_ids_def
        favorite_leaf_def resolution_leaf_def FilterCondition_def)
  have c: "combine_and_leaves [LEAF favorite_leaf, LEAF resolution_leaf] = Some (LEAF favorite_leaf)"
    by (simp add: combine_and_leaves_def m n)
  have r: "resolution favorite_leaf = None" "resolution resolution_leaf = Some [[1920, 1080]]"
    by (simp_all add: favorite_leaf_def resolution_leaf_def FilterCondition_def)
  from c r show ?thesis
    by simp
qed

section \<open>Idempotence of the optimizer\<close>

lemma merge_child_result:
  "merge_child comb cond = Inl r \<Longrightarrow> r = None \<or> r = Some (LEAF FilterCondition)"
  by (auto simp: merge_child_def merge_favorite_def merge_asset_types_def
        merge_camera_make_def merge_camera_model_def merge_person_ids_def
      split: sum.splits option.splits if_splits)

lemma combine_loop_leaf:
  "combine_loop comb cs = Some n \<Longrightarrow> is_leaf n"
proof (induction cs arbitrary: comb)
  case Nil
  then show ?case by auto
next
  case (Cons c cs)
  show ?case
  proof (cases "merge_child comb c")
    case (Inl r)
    with Cons.prems merge_child_result [OF Inl] show ?thesis by auto
  next
    case (Inr comb')
    with Cons show ?thesis by auto
  qed
qed

lemma combine_and_leaves_leaf:
  "combine_and_leaves cs = Some n \<Longrightarrow> is_leaf n"
  by (auto simp: combine_and_leaves_def combine_loop_leaf split: if_splits)

lemma normal_leaf: "is_leaf n \<Longrightarrow> normal n"
  by (cases n) auto

lemma flatten_and_normal:
  "list_all normal xs \<Longrightarrow> list_all (\<lambda>c. normal c \<and> \<not> is_and c) (flatten_and xs)"
  by (induction xs rule: flatten_and.induct) (auto simp: list_all_iff)

lemma flatten_or_normal:
  "list_all normal xs \<Longrightarrow> list_all (\<lambda>c. normal c \<and> \<not> is_or c) (flatten_or xs)"
  by (induction xs rule: flatten_or.induct) (auto simp: list_all_iff)

lemma flatten_and_id:
  "list_all (\<lambda>c. \<not> is_and c) xs \<Longrightarrow> flatten_and xs = xs"
  by (induction xs rule: flatten_and.induct) auto

lemma flatten_or_id:
  "list_all (\<lambda>c. \<not> is_or c) xs \<Longrightarrow> flatten_or xs = xs"
  by (induction xs rule: flatten_or.induct) auto

lemma combine_nil: "combine_and_leaves [] = Some (LEAF FilterCondition)"
  by (simp add: combine_and_leaves_def)

lemma simplify_and_normal:
  assumes "list_all (\<lambda>c. normal c \<and> \<not> is_and c) cs" "combine_and_leaves cs = None"
  shows "normal (simplify AND cs)"
  using assms by (cases "(AND, cs)" rule: simplify.cases) (auto simp: combine_nil)

lemma simplify_or_normal:
  assumes "list_all (\<lambda>c. normal c \<and> \<not> is_or c) cs"
  shows "normal (simplify OR cs)"
  using assms by (cases "(OR, cs)" rule: simplify.cases) auto

lemma optimize_normal: "normal (optimize t)"
proof (induction t)
  case (LEAF c)
  show ?case by simp
next
  case (AND cs)
  then have "list_all normal (map optimize cs)"
    by (simp add: list_all_iff)
  then have f: "list_all (\<lambda>c. normal c \<and> \<not> is_and c) (flatten_and (map optimize cs))"
    by (rule flatten_and_normal)
  show ?case
  proof (cases "combine_and_leaves (flatten_and (map optimize cs))")
    case None
    with f show ?thesis by (simp add: simplify_and_normal)
  next
    case (Some n)
    then show ?thesis by (simp add: normal_leaf combine_and_leaves_leaf)
  qed
next
  case (OR cs)
  then have "list_all normal (map optimize cs)"
    by (simp add: list_all_iff)
  then have "list_all (\<lambda>c. normal c \<and> \<not> is_or c) (flatten_or (map optimize cs))"
    by (rule flatten_or_normal)
  then show ?case by (simp add: simplify_or_normal)
qed

lemma simplify_long: "2 \<le> length cs \<Longrightarrow> simplify mk cs = mk cs"
  by (cases "(mk, cs)" rule: simplify.cases) auto

lemma optimize_fixes_normal: "normal t \<Longrightarrow> optimize t = t"
proof (induction t)
  case (LEAF c)
  show ?case by simp
next
  case (AND cs)
  from AND.prems have n: "list_all (\<lambda>c. normal c \<and> \<not> is_and c) cs"
    and l: "2 \<le> length cs" and c: "combine_and_leaves cs = None"
    by simp_all
  from n AND.IH have "map optimize cs = cs"
    by (simp add: list_all_iff map_idI)
  moreover from n have "flatten_and cs = cs"
    by (simp add: flatten_and_id list_all_iff)
  ultimately show ?case
    using l c by (simp add: simplify_long)
next
  case (OR cs)
  from OR.prems have n: "list_all (\<lambda>c. normal c \<and> \<not> is_or c) cs"
    and l: "2 \<le> length cs"
    by simp_all
  from n OR.IH have "map optimize cs = cs"
    by (simp add: list_all_iff map_idI)
  moreover from n have "flatten_or cs = cs"
    by (simp add: flatten_or_id list_all_iff)
  ultimately show ?case
    using l by (simp add: simplify_long)
qed

text \<open>
  Claim C6.  Optimizing an optimized tree changes nothing: the two trees are equal as
  values, node types, children and filter contents alike.
\<close>

theorem optimize_idempotent: "optimize (optimize t) = optimize t"
  by (rule optimize_fixes_normal [OF optimize_normal])

section \<open>Person filters under AND\<close>

lemma truthy_not_None: "truthy x \<Longrightarrow> x \<noteq> None"
  by (cases x) auto

lemma merge_favorite_people: "merge_favorite comb cond = Inr c \<Longrightarrow> person_ids c = person_ids comb"
  by (auto simp: merge_favorite_def split: if_splits)

lemma merge_asset_types_people: "merge_asset_types comb cond = Inr c \<Longrightarrow> person_ids c = person_ids comb"
  by (auto simp: merge_asset_types_def split: if_splits option.splits)

lemma merge_camera_make_people: "merge_camera_make comb cond = Inr c \<Longrightarrow> person_ids c = person_ids comb"
  by (auto simp: merge_camera_make_def split: if_splits)

lemma merge_camera_model_people: "merge_camera_model comb cond = Inr c \<Longrightarrow> person_ids c = person_ids comb"
  by (auto simp: merge_camera_model_def split: if_splits)

lemma merge_child_people:
  assumes "merge_child comb cond = Inr comb'"
  shows "\<not> (person_ids comb \<noteq> None \<and> supplies_people cond)"
    and "supplies_people cond \<Longrightarrow> person_ids comb' \<noteq> None"
    and "person_ids comb \<noteq> None \<Longrightarrow> person_ids comb' \<noteq> None"
proof -
  from assms obtain c1 c2 c3 c4 where
    1: "merge_favorite comb cond = Inr c1" and 2: "merge_asset_types c1 cond = Inr c2" and
    3: "merge_camera_make c2 cond = Inr c3" and 4: "merge_camera_model c3 cond = Inr c4" and
    5: "merge_person_ids c4 cond = Inr comb'"
    by (auto simp: merge_child_def split: sum.splits)
  have p: "person_ids c4 = person_ids comb"
    using 1 2 3 4
    by (simp add: merge_favorite_people merge_asset_types_people merge_camera_make_people
        merge_camera_model_people)
  from 5 p show "\<not> (person_ids comb \<noteq> None \<and> supplies_people cond)"
    by (auto simp: merge_person_ids_def supplies_people_def split: if_splits)
  from 5 p show "supplies_people cond \<Longrightarrow> person_ids comb' \<noteq> None"
    by (auto simp: merge_person_ids_def supplies_people_def dest: truthy_not_None split: if_splits)
  from 5 p show "person_ids comb \<noteq> None \<Longrightarrow> person_ids comb' \<noteq> None"
    by (auto simp: merge_person_ids_def supplies_people_def split: if_splits)
qed

lemma merge_favorite_types: "merge_favorite comb cond = Inr c \<Longrightarrow> asset_types c = asset_types comb"
  by (auto simp: merge_favorite_def split: if_splits)

lemma merge_camera_make_types: "merge_camera_make comb cond = Inr c \<Longrightarrow> asset_types c = asset_types comb"
  by (auto simp: merge_camera_make_def split: if_splits)

lemma merge_camera_model_types: "merge_camera_model comb cond = Inr c \<Longrightarrow> asset_types c = asset_types comb"
  by (auto simp: merge_camera_model_def split: if_splits)

lemma merge_person_ids_types: "merge_person_ids comb cond = Inr c \<Longrightarrow> asset_types c = asset_types comb"
  by (auto simp: merge_person_ids_def split: if_splits)

lemma merge_asset_types_admits:
  assumes "admits_type ty comb" "admits_type ty cond"
  shows "merge_asset_types comb cond \<noteq> Inl r"
    and "merge_asset_types comb cond = Inr c \<Longrightarrow> admits_type ty c"
  using assms
  by (auto simp: merge_asset_types_def admits_type_def intersect_types_def filter_empty_conv
      split: option.splits if_splits)

lemma merge_child_admits:
  assumes "admits_type ty comb" "admits_type ty cond"
  shows "merge_child comb cond \<noteq> Inl (Some n)"
    and "merge_child comb cond = Inr comb' \<Longrightarrow> admits_type ty comb'"
proof -
  show "merge_child comb cond \<noteq> Inl (Some n)"
  proof
    assume a: "merge_child comb cond = Inl (Some n)"
    then obtain c1 where 1: "merge_favorite comb cond = Inr c1"
      by (auto simp: merge_child_def merge_favorite_def split: sum.splits if_splits)
    then have "admits_type ty c1"
      using assms(1) by (simp add: admits_type_def merge_favorite_types)
    from merge_asset_types_admits(1) [OF this assms(2)]
    obtain c2 where 2: "merge_asset_types c1 cond = Inr c2"
      by (cases "merge_asset_types c1 cond") auto
    from a 1 2 show False
      by (auto simp: merge_child_def merge_camera_make_def merge_camera_model_def
          merge_person_ids_def split: sum.splits if_splits)
  qed
next
  assume "merge_child comb cond = Inr comb'"
  then obtain c1 c2 c3 c4 where
    1: "merge_favorite comb cond = Inr c1" and 2: "merge_asset_types c1 cond = Inr c2" and
    3: "merge_camera_make c2 cond = Inr c3" and 4: "merge_camera_model c3 cond = Inr c4" and
    5: "merge_person_ids c4 cond = Inr comb'"
    by (auto simp: merge_child_def split: sum.splits)
  from 1 assms(1) have "admits_type ty c1"
    by (simp add: admits_type_def merge_favorite_types)
  from merge_asset_types_admits(2) [OF this assms(2) 2] have "admits_type ty c2" .
  with 3 4 5 show "admits_type ty comb'"
    by (simp add: admits_type_def merge_camera_make_types merge_camera_model_types
        merge_person_ids_types)
qed

lemma FilterCondition_admits: "admits_type ty FilterCondition"
  by (simp add: admits_type_def FilterCondition_def)

lemma merge_child_admits_Inl:
  assumes "admits_type ty comb" "admits_type ty cond" "merge_child comb cond = Inl r"
  shows "r = None"
  using merge_child_result [OF assms(3)] merge_child_admits(1) [OF assms(1,2)] assms(3)
  by auto

lemma combine_loop_people_pending_fails:
  assumes "person_ids comb \<noteq> None" "\<exists>c \<in> set cs. supplies_people c"
    and "admits_type ty comb" "list_all (admits_type ty) cs"
  shows "combine_loop comb cs = None"
  using assms
proof (induction cs arbitrary: comb)
  case Nil
  then show ?case by simp
next
  case (Cons c cs)
  from Cons.prems have ac: "admits_type ty c" and acs: "list_all (admits_type ty) cs"
    by simp_all
  show ?case
  proof (cases "merge_child comb c")
    case (Inl r)
    with merge_child_admits_Inl [OF Cons.prems(3) ac Inl] show ?thesis by simp
  next
    case (Inr comb')
    from merge_child_people [OF Inr] Cons.prems(1,2)
    have "person_ids comb' \<noteq> None" "\<exists>c \<in> set cs. supplies_people c"
      by auto
    moreover from merge_child_admits(2) [OF Cons.prems(3) ac Inr] have "admits_type ty comb'" .
    ultimately show ?thesis
      using Cons.IH acs Inr by simp
  qed
qed

lemma combine_loop_two_people_fails:
  assumes "2 \<le> length (filter supplies_people cs)"
    and "admits_type ty comb" "list_all (admits_type ty) cs"
  shows "combine_loop comb cs = None"
  using assms
proof (induction cs arbitrary: comb)
  case Nil
  then show ?case by simp
next
  case (Cons c cs)
  from Cons.prems have ac: "admits_type ty c" and acs: "list_all (admits_type ty) cs"
    by simp_all
  show ?case
  proof (cases "merge_child comb c")
    case (Inl r)
    with merge_child_admits_Inl [OF Cons.prems(2) ac Inl] show ?thesis by simp
  next
    case (Inr comb')
    from merge_child_admits(2) [OF Cons.prems(2) ac Inr] have ad: "admits_type ty comb'" .
    show ?thesis
    proof (cases "supplies_people c")
      case True
      with Cons.prems(1) have "filter supplies_people cs \<noteq> []"
        by auto
      then have "\<exists>c \<in> set cs. supplies_people c"
        by (auto simp: filter_empty_conv)
      moreover from merge_child_people(2) [OF Inr True] have "person_ids comb' \<noteq> None" .
      ultimately show ?thesis
        using Inr ad acs combine_loop_people_pending_fails by simp
    next
      case False
      with Cons.prems(1) have "2 \<le> length (filter supplies_people cs)"
        by simp
      with Cons.IH ad acs Inr show ?thesis by simp
    qed
  qed
qed

lemma optimize_leaves: "list_all is_leaf cs \<Longrightarrow> map optimize cs = cs"
  by (induction cs rule: leaf_conditions.induct) auto

lemma flatten_and_leaves: "list_all is_leaf cs \<Longrightarrow> flatten_and cs = cs"
  by (induction cs rule: leaf_conditions.induct) auto

lemma two_people_two_children:
  "2 \<le> length (filter P (leaf_conditions cs)) \<Longrightarrow> 2 \<le> length cs"
proof -
  have "length (leaf_conditions cs) \<le> length cs"
    by (induction cs rule: leaf_conditions.induct) auto
  moreover have "length (filter P (leaf_conditions cs)) \<le> length (leaf_conditions cs)"
    by simp
  moreover assume "2 \<le> length (filter P (leaf_conditions cs))"
  ultimately show ?thesis by linarith
qed

text \<open>
  Where the loop does what its comment says: when two or more leaf children supply a
  non-empty person list and some asset type is admitted by every leaf child, the
  combination fails, and an AND of such leaves is returned by \<open>optimize\<close> as it is.
\<close>

lemma two_person_lists_do_not_merge:
  assumes "2 \<le> length (filter supplies_people (leaf_conditions children))"
    and "list_all (admits_type ty) (leaf_conditions children)"
  shows "combine_and_leaves children = None"
    and "list_all is_leaf children \<Longrightarrow> optimize (AND children) = AND children"
proof -
  show n: "combine_and_leaves children = None"
    using combine_loop_two_people_fails [OF assms(1) FilterCondition_admits assms(2)]
    by (simp add: combine_and_leaves_def)
  show "optimize (AND children) = AND children" if "list_all is_leaf children"
    using n that two_people_two_children [OF assms(1)]
    by (simp add: optimize_leaves flatten_and_leaves simplify_long)
qed

text \<open>
  Claim C5, at the AND of a leaf with the empty person list and a leaf with one person.
  Both leaves supply a person list, yet \<open>if cond.person_ids\<close> is false for the empty
  one: the loop skips it, the combination succeeds, and the AND node collapses into the
  leaf of the one person.  The AND evaluates to the empty set without a search; the
  optimized tree searches for the one person and returns what the search finds.
\<close>

theorem empty_person_list_is_merged_away:
  "person_ids unresolved_leaf = Some [] \<and> person_ids bob_leaf = Some [''bob-id''] \<and>
   combine_and_leaves [LEAF unresolved_leaf, LEAF bob_leaf] = Some (LEAF bob_leaf) \<and>
   optimize (AND [LEAF unresolved_leaf, LEAF bob_leaf]) = LEAF bob_leaf \<and>
   evaluate constant_client (Some {''a1''}) None (AND [LEAF unresolved_leaf, LEAF bob_leaf])
     = ([], Inr {}) \<and>
   snd (evaluate constant_client (Some {''a1''}) None
          (optimize (AND [LEAF unresolved_leaf, LEAF bob_leaf]))) = Inr {''a1''}"
proof -
  have m: "merge_child FilterCondition unresolved_leaf = Inr FilterCondition"
    by (simp add: merge_child_def merge_favorite_def merge_asset_types_def
        merge_camera_make_def merge_camera_model_def merge_person_ids_def
        unresolved_leaf_def FilterCondition_def)
  have n: "merge_child FilterCondition bob_leaf = Inr bob_leaf"
    by (simp add: merge_child_def merge_favorite_def merge_asset_types_def
        merge_camera_make_def merge_camera_model_def merge_person_ids_def
        bob_leaf_def FilterCondition_def)
  have c: "combine_and_leaves [LEAF unresolved_leaf, LEAF bob_leaf] = Some (LEAF bob_leaf)"
    by (simp add: combine_and_leaves_def m n)
  have p: "person_ids unresolved_leaf = Some []" "person_ids bob_leaf = Some [''bob-id'']"
    by (simp_all add: unresolved_leaf_def bob_leaf_def FilterCondition_def)
  have e: "evaluate constant_client (Some {''a1''}) None (AND [LEAF unresolved_leaf, LEAF bob_leaf])
      = ([], Inr {})"
    by (simp add: evaluate_leaf_no_people p)
  have o: "snd (evaluate constant_client (Some {''a1''}) None (LEAF bob_leaf)) = Inr {''a1''}"
    by (simp add: evaluate_leaf_def has_filters_def bob_leaf_def FilterCondition_def
        constant_client_def)
  from c p e o show ?thesis
    by simp
qed

text \<open>
  The same slip with one person filter: under the conjunctive search of the small
  library, the AND of the empty person list and the favourite leaf is empty, and the
  optimized tree, the favourite leaf alone, returns the favourite asset.
\<close>

lemma empty_person_list_dropped_by_merge:
  "optimize (AND [LEAF unresolved_leaf, LEAF favorite_leaf]) = LEAF favorite_leaf \<and>
   snd (evaluate small_client None None (AND [LEAF unresolved_leaf, LEAF favorite_leaf])) = Inr {} \<and>
   snd (evaluate small_client None None (optimize (AND [LEAF unresolved_leaf, LEAF favorite_leaf])))
     = Inr {''a1''}"
  by code_simp

text \<open>
  Two leaves with different person lists, one IMAGE-only and one VIDEO-only, collapse
  as well: the asset types are read before the people, and the return for an empty
  intersection is taken (the return that claim C2 is about).
\<close>

lemma disjoint_types_collapse_person_leaves:
  "supplies_people alice_image_leaf \<and> supplies_people bob_video_leaf \<and>
   combine_and_leaves [LEAF alice_image_leaf, LEAF bob_video_leaf] = Some (LEAF FilterCondition) \<and>
   optimize (AND [LEAF alice_image_leaf, LEAF bob_video_leaf]) = LEAF FilterCondition"
proof -
  have m: "merge_child FilterCondition alice_image_leaf = Inr alice_image_leaf"
    by (simp add: merge_child_def merge_favorite_def merge_asset_types_def
        merge_camera_make_def merge_camera_model_def merge_person_ids_def
        alice_image_leaf_def FilterCondition_def)
  have n: "merge_child alice_image_leaf bob_video_leaf = Inl (Some (LEAF FilterCondition))"
    by (simp add: merge_child_def merge_favorite_def merge_asset_types_def
        intersect_types_def alice_image_leaf_def bob_video_leaf_def FilterCondition_def)
  have c: "combine_and_leaves [LEAF alice_image_leaf, LEAF bob_video_leaf] = Some (LEAF FilterCondition)"
    by (simp add: combine_and_leaves_def m n)
  have "supplies_people alice_image_leaf" "supplies_people bob_video_leaf"
    by (simp_all add: supplies_people_def alice_image_leaf_def bob_video_leaf_def FilterCondition_def)
  with c show ?thesis by simp
qed

section \<open>The resolution post-filter\<close>

lemma extract_resolution_exif:
  assumes "exifInfo a = Present e" "exifImageWidth e = Some w" "exifImageHeight e = Some h"
    and "w \<noteq> 0" "h \<noteq> 0"
  shows "extract_resolution a = Inr (Some (w, h))"
  using assms by (simp add: extract_resolution_def)

lemma extract_resolution_fallback:
  assumes "exifInfo a = Absent \<or> (\<exists>e. exifInfo a = Present e \<and> \<not> (nonzero (exifImageWidth e) \<and> nonzero (exifImageHeight e)))"
    and "originalWidth a = Some w" "originalHeight a = Some h" "w \<noteq> 0" "h \<noteq> 0"
  shows "extract_resolution a = Inr (Some (w, h))"
  using assms by (auto simp: extract_resolution_def empty_exif_def)

lemma check_single_asset_iff:
  "check_single_asset cl ts a \<longleftrightarrow>
     (\<exists>asset_data w h. get_asset_metadata cl a = Inr asset_data \<and>
        extract_resolution asset_data = Inr (Some (w, h)) \<and> [w, h] \<in> set ts)"
  by (auto simp: check_single_asset_def split: sum.splits option.splits)

text \<open>
  Claim C9.  \<open>filter_by_resolution\<close> keeps an asset id exactly when it is among the
  given ids, its metadata fetch and its extraction succeed, and the extracted
  \<open>(width, height)\<close> is one of the target entries.  With no ids or no targets the result
  is empty and the trace has no fetch.  The extracted pair is the EXIF pair when both
  EXIF dimensions are present and non-zero, and the original pair when the EXIF pair is
  missing or incomplete.
\<close>

theorem filter_by_resolution_retains:
  "(a \<in> snd (filter_by_resolution cl asset_ids target_resolutions) \<longleftrightarrow>
      a \<in> asset_ids \<and>
      (\<exists>asset_data w h. get_asset_metadata cl a = Inr asset_data \<and>
         extract_resolution asset_data = Inr (Some (w, h)) \<and> [w, h] \<in> set target_resolutions)) \<and>
   (asset_ids = {} \<or> target_resolutions = [] \<longrightarrow>
      filter_by_resolution cl asset_ids target_resolutions = ([], {})) \<and>
   (exifInfo d = Present e \<and> exifImageWidth e = Some ew \<and> exifImageHeight e = Some eh \<and>
      ew \<noteq> 0 \<and> eh \<noteq> 0 \<longrightarrow> extract_resolution d = Inr (Some (ew, eh))) \<and>
   ((exifInfo d = Absent \<or>
     (exifInfo d = Present e \<and> \<not> (nonzero (exifImageWidth e) \<and> nonzero (exifImageHeight e)))) \<and>
    originalWidth d = Some ow \<and> originalHeight d = Some oh \<and>
      ow \<noteq> 0 \<and> oh \<noteq> 0 \<longrightarrow> extract_resolution d = Inr (Some (ow, oh)))"
proof -
  have 1: "a \<in> snd (filter_by_resolution cl asset_ids target_resolutions) \<longleftrightarrow>
      a \<in> asset_ids \<and>
      (\<exists>asset_data w h. get_asset_metadata cl a = Inr asset_data \<and>
         extract_resolution asset_data = Inr (Some (w, h)) \<and> [w, h] \<in> set target_resolutions)"
  proof (cases "asset_ids = {} \<or> target_resolutions = []")
    case True
    then show ?thesis by (auto simp: filter_by_resolution_def)
  next
    case False
    then show ?thesis
      by (simp add: filter_by_resolution_def check_single_asset_iff)
  qed
  have 2: "asset_ids = {} \<or> target_resolutions = [] \<longrightarrow>
      filter_by_resolution cl asset_ids target_resolutions = ([], {})"
    by (simp add: filter_by_resolution_def)
  from 1 2 show ?thesis
    using extract_resolution_exif [of d e ew eh] extract_resolution_fallback [of d ow oh]
    by auto
qed

lemma uhd_res: "extract_resolution uhd_asset = Inr (Some (3840, 2160))"
  by (simp add: extract_resolution_def uhd_asset_def empty_exif_def)

theorem filter_by_resolution_retains_witness:
  "''asset1'' \<in> snd (filter_by_resolution photo_client {''asset1'', ''asset2''} [[1920, 1080]]) \<and>
   ''asset2'' \<notin> snd (filter_by_resolution photo_client {''asset1'', ''asset2''} [[1920, 1080]]) \<and>
   filter_by_resolution photo_client {''asset1'', ''asset2''} [] = ([], {}) \<and>
   extract_resolution hd_asset = Inr (Some (1920, 1080))"
proof -
  have g: "get_asset_metadata photo_client ''asset1'' = Inr hd_asset"
    "get_asset_metadata photo_client ''asset2'' = Inr uhd_asset"
    by (simp_all add: photo_client_def)
  have e: "exifInfo hd_asset = Present (empty_exif\<lparr>exifImageWidth := Some 1920, exifImageHeight := Some 1080\<rparr>)"
    by (simp add: hd_asset_def)
  have 1: "''asset1'' \<in> snd (filter_by_resolution photo_client {''asset1'', ''asset2''} [[1920, 1080]])"
    and 3: "extract_resolution hd_asset = Inr (Some (1920, 1080))"
    using filter_by_resolution_retains [of "''asset1''" photo_client "{''asset1'', ''asset2''}" "[[1920, 1080]]"
        hd_asset "empty_exif\<lparr>exifImageWidth := Some 1920, exifImageHeight := Some 1080\<rparr>" 1920 1080 0 0]
    by (simp_all add: g e)
  have 2: "''asset2'' \<notin> snd (filter_by_resolution photo_client {''asset1'', ''asset2''} [[1920, 1080]])"
    using filter_by_resolution_retains [of "''asset2''" photo_client "{''asset1'', ''asset2''}" "[[1920, 1080]]"
        hd_asset "empty_exif" 0 0 0 0]
    by (simp add: g uhd_res)
  have 4: "filter_by_resolution photo_client {''asset1'', ''asset2''} [] = ([], {})"
    using filter_by_resolution_retains [of "''asset2''" photo_client "{''asset1'', ''asset2''}" "[]"
        hd_asset "empty_exif" 0 0 0 0]
    by simp
  from 1 2 3 4 show ?thesis by simp
qed

section \<open>The proximity matcher\<close>

lemma map_filter_Nil: "(\<forall>x \<in> set xs. f x = None) \<Longrightarrow> List.map_filter f xs = []"
  by (induction xs) auto

text \<open>
  Claim C3, as amended.  When no seed yields metadata with a timestamp,
  \<open>find_related_assets\<close> returns the empty set and reports no error; the error is that
  of \<open>_calculate_time_boundaries\<close>, when it is called on a metadata list without any
  timestamp.
\<close>

theorem no_seed_timestamp_returns_empty:
  "((\<forall>a \<in> set (enumerate_set rt (sampled_ids rt exact_match_ids)). fetch_single fm rt a = None) \<longrightarrow>
      find_related_assets fm rt exact_match_ids rule_date_filters = Inr {}) \<and>
   ((\<forall>m \<in> set metadata_list. timestamp m = None) \<longrightarrow>
      calculate_time_boundaries fm rt metadata_list rule_date_filters =
        Inl (ValueError ''No valid timestamps found in metadata''))"
  by (simp add: find_related_assets_def fetch_asset_metadata_def calculate_time_boundaries_def
      map_filter_Nil)

theorem no_seed_timestamp_returns_empty_witness:
  "enumerate_set test_runtime (sampled_ids test_runtime {''seed''}) = [''seed''] \<and>
   fetch_single (FuzzyMatcher undated_client 60 100) test_runtime ''seed'' = None \<and>
   find_related_assets (FuzzyMatcher undated_client 60 100) test_runtime {''seed''} Map.empty = Inr {} \<and>
   calculate_time_boundaries (FuzzyMatcher undated_client 60 100) test_runtime
       [\<lparr>asset_id = ''seed'', timestamp = None, latitude = Some 40.7, longitude = Some (-74)\<rparr>] Map.empty =
     Inl (ValueError ''No valid timestamps found in metadata'')"
proof -
  have f: "fetch_single (FuzzyMatcher undated_client 60 100) test_runtime a = None" for a
    by (simp add: fetch_single_def FuzzyMatcher_def undated_client_def extract_metadata_def
        undated_asset_def empty_exif_def try_parse_def)
  have e: "enumerate_set test_runtime (sampled_ids test_runtime {''seed''}) = [''seed'']"
    by (simp add: sampled_ids_def MAX_FUZZY_SEEDS_def test_runtime_def)
  from e f no_seed_timestamp_returns_empty [of test_runtime "{''seed''}" "FuzzyMatcher undated_client 60 100"
      Map.empty "[\<lparr>asset_id = ''seed'', timestamp = None, latitude = Some 40.7, longitude = Some (-74)\<rparr>]"]
  show ?thesis by simp
qed

text \<open>
  Claim C3 as stated fails: the one seed has no timestamp of any kind, and the
  invocation returns the empty set.
\<close>

theorem no_seed_timestamp_counterexample:
  "fetch_single (FuzzyMatcher undated_client 60 100) test_runtime ''seed'' = None \<and>
   find_related_assets (FuzzyMatcher undated_client 60 100) test_runtime {''seed''} Map.empty = Inr {}"
proof -
  have f: "fetch_single (FuzzyMatcher undated_client 60 100) test_runtime a = None" for a
    by (simp add: fetch_single_def FuzzyMatcher_def undated_client_def extract_metadata_def
        undated_asset_def empty_exif_def try_parse_def)
  show ?thesis
    by (simp add: find_related_assets_def fetch_asset_metadata_def map_filter_Nil f)
qed

text \<open>
  When the four coordinates are present and none is zero, the comparison is the one of
  time difference and great-circle distance.
\<close>

lemma within_proximity_nonzero_gps:
  assumes "timestamp exact = Some exact_time"
    and "latitude candidate = Some lat1" "longitude candidate = Some lon1"
    and "latitude exact = Some lat2" "longitude exact = Some lon2"
    and "lat1 \<noteq> 0" "lon1 \<noteq> 0" "lat2 \<noteq> 0" "lon2 \<noteq> 0"
  shows "within_proximity fm candidate_time candidate exact \<longleftrightarrow>
           \<bar>total_seconds (candidate_time - exact_time)\<bar> \<le> total_seconds (time_window fm) \<and>
           haversine_distance lat1 lon1 lat2 lon2 \<le> location_radius fm"
  using assms by (auto simp: within_proximity_def Let_def)

lemma haversine_equator_north: "haversine_distance 0 100 60 100 = 6371000 * (pi / 3)"
proof -
  have s: "sqrt (1 / 4) = (1 / 2 :: real)"
    by (rule real_sqrt_unique) (simp_all add: power2_eq_square)
  have r: "(radians 60 - radians 0) / 2 = pi / 6" "(radians 100 - radians 100) / 2 = 0"
    by (simp_all add: radians_def)
  have q: "(sin (pi / 6))\<^sup>2 = (1 / 4 :: real)"
    by (simp add: sin_30 power2_eq_square)
  have "haversine_distance 0 100 60 100 =
      6371000 * (2 * arcsin (sqrt ((sin (pi / 6))\<^sup>2 + cos (radians 0) * cos (radians 60) * (sin 0)\<^sup>2)))"
    unfolding haversine_distance_def Let_def r ..
  also have "\<dots> = 6371000 * (2 * arcsin (sqrt (1 / 4)))"
    unfolding q by simp
  also have "\<dots> = 6371000 * (2 * (pi / 6))"
    unfolding s arcsin_one_half ..
  also have "\<dots> = 6371000 * (pi / 3)"
    by simp
  finally show ?thesis .
qed

lemma fetch_cand: "fetch_single (FuzzyMatcher gps_client 60 100) test_runtime ''cand'' = Some equator_metadata"
  by (simp add: fetch_single_def FuzzyMatcher_def gps_client_def extract_metadata_def
      equator_asset_def empty_exif_def try_parse_def test_runtime_def equator_metadata_def)

lemma fetch_seed: "fetch_single (FuzzyMatcher gps_client 60 100) test_runtime ''seed'' = Some north_metadata"
  by (simp add: fetch_single_def FuzzyMatcher_def gps_client_def extract_metadata_def
      north_asset_def empty_exif_def try_parse_def test_runtime_def north_metadata_def)

lemma haversine_same: "haversine_distance lat lon lat lon = 0"
  by (simp add: haversine_distance_def)

lemma find_related_equator:
  "find_related_assets (FuzzyMatcher gps_client 60 100) test_runtime {''seed''} Map.empty = Inr {''cand''}"
proof -
  let ?fm = "FuzzyMatcher gps_client 60 100"
  have e: "enumerate_set test_runtime {''seed''} = [''seed'']"
      "enumerate_set test_runtime {''seed'', ''cand''} = [''seed'', ''cand'']"
    by (simp_all add: test_runtime_def)
  have s: "sampled_ids test_runtime {''seed''} = {''seed''}"
    by (simp add: sampled_ids_def MAX_FUZZY_SEEDS_def)
  have m: "fetch_asset_metadata ?fm test_runtime {''seed''} = [north_metadata]"
    "fetch_asset_metadata ?fm test_runtime {''seed'', ''cand''} = [north_metadata, equator_metadata]"
    by (simp_all add: fetch_asset_metadata_def e fetch_seed fetch_cand)
  have b: "calculate_time_boundaries ?fm test_runtime [north_metadata] Map.empty
      = Inr (1749997800000000 - time_window ?fm, 1749997800000000 + time_window ?fm)"
    by (simp add: calculate_time_boundaries_def north_metadata_def
        clamp_start_def clamp_end_def)
  have q: "query_candidates ?fm test_runtime x y Map.empty = {''seed'', ''cand''}" for x y
    by (simp add: query_candidates_def FuzzyMatcher_def gps_client_def)
  have w1: "within_proximity ?fm 1749997800000000 equator_metadata north_metadata"
    by (simp add: within_proximity_def equator_metadata_def north_metadata_def total_seconds_def
        FuzzyMatcher_def)
  have w2: "within_proximity ?fm 1749997800000000 north_metadata north_metadata"
    by (simp add: within_proximity_def north_metadata_def total_seconds_def
        FuzzyMatcher_def haversine_same)
  have f: "filter_by_proximity ?fm test_runtime {''seed'', ''cand''} [north_metadata] = {''seed'', ''cand''}"
    using w1 w2
    by (simp add: filter_by_proximity_def m is_fuzzy_match_def)
       (simp add: equator_metadata_def north_metadata_def)
  show ?thesis
    by (simp add: find_related_assets_def s m b q f)
qed

text \<open>
  Claim C8, at a candidate on the equator (latitude 0, longitude 100) and a seed at
  latitude 60 on the same meridian, taken at the same instant, with a radius of 100 m.
  Both carry GPS and their haversine distance is a sixth of the Earth's circumference,
  yet the comparison reaches \<open>fuzzy_matches.add\<close>: the latitude \<open>0.0\<close> is false in
  \<open>if candidate.latitude and ...\<close> and the GPS check is skipped.
\<close>

theorem zero_latitude_skips_gps_check:
  "latitude equator_metadata = Some 0 \<and> longitude equator_metadata = Some 100 \<and>
   latitude north_metadata = Some 60 \<and> longitude north_metadata = Some 100 \<and>
   haversine_distance 0 100 60 100 > location_radius (FuzzyMatcher gps_client 60 100) \<and>
   within_proximity (FuzzyMatcher gps_client 60 100) 1749997800000000 equator_metadata north_metadata \<and>
   filter_by_proximity (FuzzyMatcher gps_client 60 100) test_runtime {''cand''} [north_metadata]
     = {''cand''} \<and>
   find_related_assets (FuzzyMatcher gps_client 60 100) test_runtime {''seed''} Map.empty
     = Inr {''cand''}"
proof -
  have d: "haversine_distance 0 100 60 100 > location_radius (FuzzyMatcher gps_client 60 100)"
  proof -
    have "(100 :: real) < 6371000 * (2 / 3)" by simp
    also have "\<dots> \<le> 6371000 * (pi / 3)"
      using pi_ge_two by simp
    finally show ?thesis
      by (simp add: haversine_equator_north FuzzyMatcher_def)
  qed
  have w: "within_proximity (FuzzyMatcher gps_client 60 100) 1749997800000000 equator_metadata north_metadata"
    by (simp add: within_proximity_def equator_metadata_def north_metadata_def total_seconds_def
        FuzzyMatcher_def)
  have e: "enumerate_set test_runtime {''cand''} = [''cand'']"
    by (simp add: test_runtime_def)
  have f: "filter_by_proximity (FuzzyMatcher gps_client 60 100) test_runtime {''cand''} [north_metadata]
     = {''cand''}"
    using w by (simp add: filter_by_proximity_def fetch_asset_metadata_def e
        fetch_cand is_fuzzy_match_def equator_metadata_def)
  from d w f find_related_equator show ?thesis
    by (simp add: equator_metadata_def north_metadata_def)
qed

section \<open>Construction from configuration\<close>

lemma mk_node_and: "mk_node AND name children = Inr n \<Longrightarrow> is_and n"
  by (auto simp: mk_node_def split: if_splits)

text \<open>
  Claim C10.  For a mapping that has both an \<open>and\<close> and an \<open>or\<close> key, \<open>from_config\<close>
  returns what it returns for the \<open>and\<close> entry alone: the \<open>or\<close> entry and every other
  key are not read, any node built is an AND node, and when the operands of \<open>and\<close>
  build to a non-empty list of children the result is the AND of these children.
\<close>

theorem and_takes_precedence_over_or:
  assumes "map_of cfg ''and'' = Some v" and "map_of cfg ''or'' = Some w"
  shows "from_config resolver (CDict cfg) = from_config resolver (CDict [(''and'', v)]) \<and>
         (\<forall>n. from_config resolver (CDict cfg) = Inr n \<longrightarrow> is_and n) \<and>
         (\<forall>ops children. v = CList ops \<and> from_configs resolver ops = Inr children \<and> children \<noteq> [] \<longrightarrow>
            from_config resolver (CDict cfg) = Inr (AND children))"
proof -
  have 1: "from_config resolver (CDict cfg) = from_config resolver (CDict [(''and'', v)])"
    using assms(1) by simp
  have 2: "is_and n" if "from_config resolver (CDict cfg) = Inr n" for n
    using that assms(1)
    by (auto simp: mk_node_and split: config.splits sum.splits)
  have 3: "from_config resolver (CDict cfg) = Inr (AND children)"
    if "v = CList ops" "from_configs resolver ops = Inr children" "children \<noteq> []" for ops children
    using that assms(1) by (simp add: mk_node_def)
  from 1 2 3 show ?thesis by blast
qed

lemma leaf_favorite: "from_config None favorite_config = Inr (LEAF favorite_leaf)"
  by (simp add: favorite_config_def parse_leaf_condition_def parse_is_favorite_def
      parse_asset_types_def parse_camera_def parse_people_def parse_tags_def
      parse_resolution_def favorite_leaf_def)

lemma upper_image: "upper ''image'' = ''IMAGE''"
  by code_simp

lemma leaf_image: "from_config None image_config = Inr (LEAF image_leaf)"
  by (simp add: image_config_def parse_leaf_condition_def parse_is_favorite_def
      parse_asset_types_def parse_camera_def parse_people_def parse_tags_def
      parse_resolution_def image_leaf_def upper_image)

theorem and_takes_precedence_over_or_witness:
  "map_of and_or_config ''and'' = Some (CList [favorite_config, image_config]) \<and>
   map_of and_or_config ''or'' = Some (CList [image_config]) \<and>
   from_config None (CDict and_or_config) = Inr (AND [LEAF favorite_leaf, LEAF image_leaf])"
proof -
  have a: "map_of and_or_config ''and'' = Some (CList [favorite_config, image_config])"
    and b: "map_of and_or_config ''or'' = Some (CList [image_config])"
    by (simp_all add: and_or_config_def)
  have c: "from_configs None [favorite_config, image_config] = Inr [LEAF favorite_leaf, LEAF image_leaf]"
    by (simp add: leaf_favorite leaf_image)
  from a b c and_takes_precedence_over_or [OF a b, of None] show ?thesis
    by simp
qed

section \<open>Evaluation of optimized trees\<close>


















































text \<open>
  A combination the condition of the theorem leaves out: without a base set, a leaf
  without filters evaluates to the empty set and so does the AND, while the merge treats
  that leaf as neutral and the optimized tree is the favourite leaf alone.
\<close>

lemma no_filter_leaf_dropped_by_merge:
  "\<not> exact_merges None (AND [LEAF FilterCondition, LEAF favorite_leaf]) \<and>
   snd (evaluate small_client None None (AND [LEAF FilterCondition, LEAF favorite_leaf])) = Inr {} \<and>
   snd (evaluate small_client None None (optimize (AND [LEAF FilterCondition, LEAF favorite_leaf])))
     = Inr {''a1''}"
  by code_simp





end
